theory Spec2Isabelle
  imports Main "HOL-Library.Word"
begin

unbundle bit_operations_syntax

section \<open>OpenSSL integration of librdkafka (rdkafka\_ssl.c)\<close>

text \<open>
  The development follows \<^verbatim>\<open>src/plugins/out_kafka/librdkafka-1.3.0/src/rdkafka_ssl.c\<close>.
  Every function of that file that is verified below is embedded as a HOL function of the
  same name. What the C code reads from or writes to its surroundings is made explicit:
  the thread-local OpenSSL error queue, the socket errno, the broker log and the poll
  registration are fields of a state record that is passed in and returned; the
  \<^verbatim>\<open>errstr\<close> buffer is a string that is passed in and returned together with its capacity;
  the value returned by a call into OpenSSL or libc is an input of the model.
  Debug output (\<^verbatim>\<open>rd_kafka_dbg\<close>, \<^verbatim>\<open>rd_rkb_dbg\<close>) is only produced when debugging is
  configured and never influences control flow; it is left out.
\<close>

subsection \<open>C strings and formatted output\<close>

text \<open>
  \<^verbatim>\<open>rd_snprintf(buf, size, ...)\<close>: the formatted text is cut to \<open>sz - 1\<close> characters
  (the last byte holds the terminating NUL); with \<open>sz = 0\<close> nothing is written and the
  buffer keeps its old content.
\<close>

definition rd_snprintf :: "nat \<Rightarrow> string \<Rightarrow> string \<Rightarrow> string" where
  "rd_snprintf sz old s = (if sz = 0 then old else take (sz - 1) s)"

text \<open>The conversion \<^verbatim>\<open>%d\<close> of printf.\<close>

definition digit_char :: "nat \<Rightarrow> char" where
  "digit_char n = ''0123456789'' ! n"

fun dec_nat :: "nat \<Rightarrow> string" where
  "dec_nat n = (if n < 10 then [digit_char n] else dec_nat (n div 10) @ [digit_char (n mod 10)])"

declare dec_nat.simps [simp del]

definition fmt_d :: "int \<Rightarrow> string" where
  "fmt_d i = (if i < 0 then CHR ''-'' # dec_nat (nat (- i)) else dec_nat (nat i))"

subsection \<open>The OpenSSL error queue and the log\<close>

text \<open>
  One entry of the thread-local error queue, as \<^verbatim>\<open>ERR_get_error_line_data\<close> returns it:
  the packed error code (\<^verbatim>\<open>unsigned long\<close>), the source file and line where it was
  raised, and the optional text with its flags.
\<close>

record err_entry =
  err_code :: "64 word"
  err_file :: string
  err_line :: int
  err_data :: string
  err_flags :: "32 word"

definition ERR_TXT_STRING :: "32 word" where
  "ERR_TXT_STRING = 2"

text \<open>
  OpenSSL packs library, function and reason into the low 32 bits of a code, and no
  queued code is 0 (0 is what the queue functions return for an empty queue).
\<close>

definition err_queue_ok :: "err_entry list \<Rightarrow> bool" where
  "err_queue_ok q = (\<forall>e \<in> set q. err_code e \<noteq> 0 \<and> unat (err_code e) < 2 ^ 32)"

datatype log_scope = Broker | Global

datatype log_entry = Log log_scope nat string string

definition LOG_ERR :: nat where "LOG_ERR = 3"
definition LOG_WARNING :: nat where "LOG_WARNING = 4"

text \<open>
  Functions of OpenSSL and libc that map a code to its text. They are parameters of the
  model.
\<close>

record libs =
  ERR_error_string :: "64 word \<Rightarrow> string"
  rd_strerror :: "int \<Rightarrow> string"
  X509_verify_cert_error_string :: "int \<Rightarrow> string"

text \<open>
  The text that \<^verbatim>\<open>rd_kafka_ssl_error\<close> formats for one entry:
  \<^verbatim>\<open>"%s:%d: %s: %s"\<close> with file, line, the 256-byte buffer filled by
  \<^verbatim>\<open>ERR_error_string_n\<close>, and the entry's text when it carries one.
\<close>

definition err_entry_text :: "libs \<Rightarrow> err_entry \<Rightarrow> string" where
  "err_entry_text L e =
     err_file e @ '':'' @ fmt_d (err_line e) @ '': '' @
     take 255 (ERR_error_string L (err_code e)) @ '': '' @
     (if err_flags e AND ERR_TXT_STRING \<noteq> 0 then err_data e else '''')"

text \<open>
  The loop of \<^verbatim>\<open>rd_kafka_ssl_error\<close>. \<^verbatim>\<open>ERR_get_error_line_data\<close> removes the oldest
  entry of the queue (the head of the list) and returns its code, or returns 0 on an
  empty queue. The queue of OpenSSL holds at most 16 entries, so the counter
  \<^verbatim>\<open>cnt\<close> cannot overflow.
\<close>

fun rd_kafka_ssl_error_loop ::
  "libs \<Rightarrow> bool \<Rightarrow> nat \<Rightarrow> err_entry list \<Rightarrow> nat \<Rightarrow> string \<Rightarrow> log_entry list \<Rightarrow>
   err_entry list \<times> nat \<times> string \<times> log_entry list" where
  "rd_kafka_ssl_error_loop L rkb sz [] cnt errstr lg = ([], cnt, errstr, lg)"
| "rd_kafka_ssl_error_loop L rkb sz (e # q) cnt errstr lg =
     (if err_code e = 0 then (q, cnt, errstr, lg)
      else rd_kafka_ssl_error_loop L rkb sz q (cnt + 1)
             (rd_snprintf sz errstr (err_entry_text L e))
             (if cnt > 0
              then lg @ [Log (if rkb then Broker else Global) LOG_ERR ''SSL'' errstr]
              else lg))"

text \<open>
  \<^verbatim>\<open>rd_kafka_ssl_error (rk, rkb, errstr, errstr_size)\<close>: \<open>rkb\<close> says whether the broker
  pointer is non-NULL. Returns the queue, the log and the buffer.
\<close>

definition rd_kafka_ssl_error ::
  "libs \<Rightarrow> bool \<Rightarrow> err_entry list \<Rightarrow> log_entry list \<Rightarrow> string \<Rightarrow> nat \<Rightarrow>
   err_entry list \<times> log_entry list \<times> string" where
  "rd_kafka_ssl_error L rkb q lg errstr sz =
     (case rd_kafka_ssl_error_loop L rkb sz q 0 errstr lg of
        (q', cnt, errstr', lg') \<Rightarrow>
          (q', lg', if cnt = 0 then rd_snprintf sz errstr' ''No error'' else errstr'))"


subsection \<open>Classifying the result of an I/O or handshake step\<close>

text \<open>
  The result codes of \<^verbatim>\<open>SSL_get_error\<close> (openssl/ssl.h).
\<close>

definition SSL_ERROR_WANT_READ :: int where "SSL_ERROR_WANT_READ = 2"
definition SSL_ERROR_WANT_WRITE :: int where "SSL_ERROR_WANT_WRITE = 3"
definition SSL_ERROR_SYSCALL :: int where "SSL_ERROR_SYSCALL = 5"
definition SSL_ERROR_ZERO_RETURN :: int where "SSL_ERROR_ZERO_RETURN = 6"
definition SSL_ERROR_WANT_CONNECT :: int where "SSL_ERROR_WANT_CONNECT = 7"

datatype poll_event = POLLIN | POLLOUT

text \<open>
  What the functions of a transport read and write besides their arguments:
  the OpenSSL error queue of the broker thread, the socket errno
  (\<^verbatim>\<open>rd_socket_errno\<close>), the log of the broker, the events the transport asks the poll
  loop for, and the number of calls made so far into the transfer primitives of OpenSSL.
\<close>

record transport =
  err_queue :: "err_entry list"
  rd_socket_errno :: int
  rkb_log :: "log_entry list"
  rktrans_events :: "poll_event set"
  ssl_calls :: nat

text \<open>
  Modelled from the spec: \<^verbatim>\<open>rd_kafka_transport_poll_set\<close> is defined in
  rdkafka\_transport.c, which is not part of the sources at hand. It is the operation
  "request read readiness" / "request write readiness" of the poll-readiness
  registration interface: the event is added to the events asked for.
\<close>

definition rd_kafka_transport_poll_set :: "transport \<Rightarrow> poll_event \<Rightarrow> transport" where
  "rd_kafka_transport_poll_set t ev = t\<lparr>rktrans_events := insert ev (rktrans_events t)\<rparr>"

text \<open>
  \<^verbatim>\<open>ERR_peek_error\<close>: the code of the oldest entry, which stays queued, or 0.
\<close>

definition ERR_peek_error :: "err_entry list \<Rightarrow> 64 word" where
  "ERR_peek_error q = (case q of [] \<Rightarrow> 0 | e # _ \<Rightarrow> err_code e)"

text \<open>
  The call \<^verbatim>\<open>rd_kafka_ssl_error(NULL, rktrans->rktrans_rkb, errstr, errstr_size)\<close> on the
  state of a transport.
\<close>

definition ssl_error_rkb :: "libs \<Rightarrow> transport \<Rightarrow> string \<Rightarrow> nat \<Rightarrow> transport \<times> string" where
  "ssl_error_rkb L t errstr sz =
     (case rd_kafka_ssl_error L True (err_queue t) (rkb_log t) errstr sz of
        (q', lg', errstr') \<Rightarrow> (t\<lparr>err_queue := q', rkb_log := lg'\<rparr>, errstr'))"

text \<open>
  \<^verbatim>\<open>rd_kafka_transport_ssl_io_update\<close>. \<open>serr\<close> is the value of
  \<^verbatim>\<open>SSL_get_error(rktrans->rktrans_ssl, ret)\<close>. \<^verbatim>\<open>serr2\<close> is an \<^verbatim>\<open>int\<close>: the
  \<^verbatim>\<open>unsigned long\<close> of \<^verbatim>\<open>ERR_peek_error\<close> is cut to 32 bits.
  Returns the function's result, the state and the buffer.
\<close>

definition rd_kafka_transport_ssl_io_update ::
  "libs \<Rightarrow> transport \<Rightarrow> int \<Rightarrow> string \<Rightarrow> nat \<Rightarrow> int \<times> transport \<times> string" where
  "rd_kafka_transport_ssl_io_update L t serr errstr sz =
     (if serr = SSL_ERROR_WANT_READ then
        (0, rd_kafka_transport_poll_set t POLLIN, errstr)
      else if serr = SSL_ERROR_WANT_WRITE \<or> serr = SSL_ERROR_WANT_CONNECT then
        (0, rd_kafka_transport_poll_set t POLLOUT, errstr)
      else if serr = SSL_ERROR_SYSCALL then
        (let serr2 = (ucast (ERR_peek_error (err_queue t)) :: 32 word) in
         if serr2 = 0 \<and> rd_socket_errno t = 0 then
           (- 1, t, rd_snprintf sz errstr ''Disconnected'')
         else if serr2 \<noteq> 0 then
           (case ssl_error_rkb L t errstr sz of (t', errstr') \<Rightarrow> (- 1, t', errstr'))
         else
           (- 1, t, rd_snprintf sz errstr
                      (''SSL transport error: '' @ rd_strerror L (rd_socket_errno t))))
      else if serr = SSL_ERROR_ZERO_RETURN then
        (- 1, t, rd_snprintf sz errstr ''Disconnected'')
      else
        (case ssl_error_rkb L t errstr sz of (t', errstr') \<Rightarrow> (- 1, t', errstr')))"

subsection \<open>Verifying the handshake\<close>

text \<open>
  A certificate, as far as this file looks at it: the one-line renderings of its subject
  and issuer names (\<^verbatim>\<open>X509_NAME_oneline\<close>).
\<close>

record x509 =
  x509_subject :: string
  x509_issuer :: string

text \<open>
  What the code asks an established OpenSSL session for: the certificate the peer
  presented (\<^verbatim>\<open>SSL_get_peer_certificate\<close>) and the result of its verification
  (\<^verbatim>\<open>SSL_get_verify_result\<close>).
\<close>

record ssl_session =
  peer_certificate :: "x509 option"
  verify_result :: int

definition X509_V_OK :: int where "X509_V_OK = 0"

datatype resp_err = RD_KAFKA_RESP_ERR__SSL | RD_KAFKA_RESP_ERR__TRANSPORT

text \<open>
  Calls into the surrounding connection: \<^verbatim>\<open>rd_kafka_broker_fail\<close> with its level, error
  code and formatted message (the connection has failed for good), and
  \<^verbatim>\<open>rd_kafka_transport_connect_done\<close> (the connection is established).
\<close>

datatype broker_call = Broker_fail nat resp_err string | Connect_done

text \<open>
  \<^verbatim>\<open>rd_kafka_transport_ssl_verify\<close>; \<open>enable_verify\<close> is
  \<^verbatim>\<open>rk_conf.ssl.enable_verify\<close>.
\<close>

definition rd_kafka_transport_ssl_verify ::
  "libs \<Rightarrow> bool \<Rightarrow> ssl_session \<Rightarrow> int \<times> broker_call list" where
  "rd_kafka_transport_ssl_verify L enable_verify sess =
     (if \<not> enable_verify then (0, [])
      else if peer_certificate sess = None then
        (- 1, [Broker_fail LOG_ERR RD_KAFKA_RESP_ERR__SSL
                 ''Broker did not provide a certificate''])
      else if verify_result sess \<noteq> X509_V_OK then
        (- 1, [Broker_fail LOG_ERR RD_KAFKA_RESP_ERR__SSL
                 (''Failed to verify broker certificate: '' @
                  X509_verify_cert_error_string L (verify_result sess))])
      else (0, []))"

text \<open>\<^verbatim>\<open>strstr(haystack, needle) != NULL\<close>.\<close>

fun strstr :: "string \<Rightarrow> string \<Rightarrow> bool" where
  "strstr [] n = (n = [])"
| "strstr (c # cs) n = (take (length n) (c # cs) = n \<or> strstr cs n)"

text \<open>
  \<^verbatim>\<open>rd_kafka_transport_ssl_handshake\<close>. \<open>r\<close> is what \<^verbatim>\<open>SSL_do_handshake\<close> returned,
  \<open>serr\<close> what \<^verbatim>\<open>SSL_get_error\<close> says about it, \<open>t\<close> the state the call left behind,
  and \<open>errstr\<close> the content of the local 512-byte buffer, which is not initialised.
  The result 1 means that the session is established, - 1 that it has failed for good,
  0 that the handshake is still in progress.
\<close>

definition rd_kafka_transport_ssl_handshake ::
  "libs \<Rightarrow> bool \<Rightarrow> ssl_session \<Rightarrow> transport \<Rightarrow> int \<Rightarrow> int \<Rightarrow> string \<Rightarrow>
   int \<times> transport \<times> broker_call list" where
  "rd_kafka_transport_ssl_handshake L enable_verify sess t r serr errstr =
     (if r = 1 then
        (case rd_kafka_transport_ssl_verify L enable_verify sess of
           (v, calls) \<Rightarrow>
             if v = - 1 then (- 1, t, calls) else (1, t, calls @ [Connect_done]))
      else
        (case rd_kafka_transport_ssl_io_update L t serr errstr 512 of
           (u, t', errstr') \<Rightarrow>
             if u = - 1 then
               (- 1, t',
                [Broker_fail LOG_ERR RD_KAFKA_RESP_ERR__SSL
                   (''SSL handshake failed: '' @ errstr' @
                    (if strstr errstr' ''unexpected message''
                     then '': client authentication might be required (see broker log)''
                     else ''''))])
             else (0, t', [])))"

subsection \<open>The certificate verification hook\<close>

text \<open>
  The part of the \<^verbatim>\<open>X509_STORE_CTX\<close> that the hook reads and writes: the certificate
  under verification, the error code of the chain and the depth of the certificate.
\<close>

record x509_store_ctx =
  current_cert :: "x509 option"
  ctx_error :: int
  error_depth :: int

text \<open>
  The application's callback \<^verbatim>\<open>rk_conf.ssl.cert_verify_cb\<close>. It receives the broker's
  name and id, the error code, the depth, the encoded certificate and its size, and gives
  back its verdict, the error code it leaves in \<^verbatim>\<open>x509_error\<close>, and the text it
  leaves in the 512-byte buffer \<^verbatim>\<open>errstr\<close> (empty when the callback writes nothing).
\<close>

type_synonym cert_verify_cb =
  "string \<Rightarrow> int \<Rightarrow> int \<Rightarrow> int \<Rightarrow> 8 word list \<Rightarrow> nat \<Rightarrow> int \<times> int \<times> string"

text \<open>
  \<^verbatim>\<open>rd_kafka_transport_ssl_cert_verify_cb\<close>. \<open>i2d_X509\<close> is the encoder of OpenSSL: it
  returns the size and the buffer (\<open>None\<close> for a NULL pointer). The function returns its
  verdict, the store context, the log, and what the application's callback returned when
  it was called (\<open>None\<close> when it was not called). The two names are rendered into
  128-byte buffers.
\<close>

definition rd_kafka_transport_ssl_cert_verify_cb ::
  "cert_verify_cb \<Rightarrow> (x509 \<Rightarrow> int \<times> 8 word list option) \<Rightarrow> string \<Rightarrow> int \<Rightarrow>
   int \<Rightarrow> x509_store_ctx \<Rightarrow> log_entry list \<Rightarrow>
   int \<times> x509_store_ctx \<times> log_entry list \<times> (int \<times> int \<times> string) option" where
  "rd_kafka_transport_ssl_cert_verify_cb cb i2d_X509 rkb_nodename rkb_nodeid
       preverify_ok x509_ctx lg =
     (case current_cert x509_ctx of
        None \<Rightarrow>
          (0, x509_ctx,
           lg @ [Log Broker LOG_ERR ''SSLCERTVRFY''
                   ''Failed to get current certificate to verify''], None)
      | Some cert \<Rightarrow>
          (let depth = error_depth x509_ctx;
               x509_orig_error = ctx_error x509_ctx
           in case i2d_X509 cert of
             (buf_size, buf) \<Rightarrow>
               if buf_size < 0 \<or> buf = None then
                 (0, x509_ctx,
                  lg @ [Log Broker LOG_ERR ''SSLCERTVRFY''
                          ''Unable to convert certificate to X509 format''], None)
               else
                 (case cb rkb_nodename rkb_nodeid x509_orig_error depth (the buf) (nat buf_size) of
                    (ok, x509_error, errstr) \<Rightarrow>
                      if ok = 0 then
                        (0, x509_ctx\<lparr>ctx_error := x509_error\<rparr>,
                         lg @ [Log Broker LOG_ERR ''SSLCERTVRFY''
                                 (''Certificate (subject='' @
                                  take 127 (x509_subject cert) @ '', issuer='' @
                                  take 127 (x509_issuer cert) @
                                  '') verification callback failed: '' @ errstr)],
                         Some (ok, x509_error, errstr))
                      else
                        (1,
                         if x509_orig_error \<noteq> 0 \<and> x509_error = 0
                         then x509_ctx\<lparr>ctx_error := 0\<rparr> else x509_ctx,
                         lg, Some (ok, x509_error, errstr)))))"

subsection \<open>The password callback\<close>

text \<open>
  \<^verbatim>\<open>memcpy (dst, src, n)\<close> on the bytes of the two buffers. Copying beyond the end of
  either buffer is undefined behaviour: \<open>None\<close>.
\<close>

definition memcpy :: "string \<Rightarrow> string \<Rightarrow> nat \<Rightarrow> string option" where
  "memcpy dst src n =
     (if n \<le> length dst \<and> n \<le> length src then Some (take n src @ drop n dst) else None)"

text \<open>
  \<^verbatim>\<open>rd_kafka_transport_ssl_passwd_cb\<close>. \<open>key_password\<close> is
  \<^verbatim>\<open>rk_conf.ssl.key_password\<close>, \<open>buf\<close> the bytes of the destination buffer and \<open>sz\<close> the
  capacity that OpenSSL announces for it. \<^verbatim>\<open>pwlen\<close> is the \<^verbatim>\<open>size_t\<close> of
  \<^verbatim>\<open>strlen\<close> cut to an \<^verbatim>\<open>int\<close>; the length handed to \<^verbatim>\<open>memcpy\<close> is converted to
  \<^verbatim>\<open>size_t\<close>, so a negative one is a length beyond every buffer.
\<close>

definition rd_kafka_transport_ssl_passwd_cb ::
  "string option \<Rightarrow> string \<Rightarrow> int \<Rightarrow> log_entry list \<Rightarrow>
   (int \<times> string \<times> log_entry list) option" where
  "rd_kafka_transport_ssl_passwd_cb key_password buf sz lg =
     (case key_password of
        None \<Rightarrow>
          Some (- 1, buf,
                lg @ [Log Global LOG_WARNING ''SSLPASSWD''
                        (''Private key requires password but '' @
                         ''no password configured (ssl.key.password)'')])
      | Some pw \<Rightarrow>
          (let pwlen = sint (word_of_nat (length pw) :: 32 word);
               n = min pwlen sz
           in if n < 0 then None
              else (case memcpy buf pw (nat n) of
                      None \<Rightarrow> None
                    | Some buf' \<Rightarrow> Some (pwlen, buf', lg))))"

subsection \<open>Hostname for SNI and endpoint identification\<close>









subsection \<open>Sending and receiving\<close>








text \<open>
  What one call of \<^verbatim>\<open>SSL_write\<close> or \<^verbatim>\<open>SSL_read\<close> does, as far as the transport can
  tell: the value it returns, what \<^verbatim>\<open>SSL_get_error\<close> says about that value, the entries
  it appends to the error queue, and the socket errno it leaves. The primitives
  themselves are parameters: they map the number of the call and the number of bytes
  asked for to such a result.
\<close>

record ssl_result =
  ssl_ret :: int
  ssl_error :: int
  ssl_queued :: "err_entry list"
  ssl_errno :: int


definition ssl_called :: "transport \<Rightarrow> ssl_result \<Rightarrow> transport" where
  "ssl_called t res =
     t\<lparr>err_queue := err_queue t @ ssl_queued res,
       rd_socket_errno := ssl_errno res,
       ssl_calls := Suc (ssl_calls t)\<rparr>"

definition rd_kafka_transport_ssl_clear_error :: "transport \<Rightarrow> transport" where
  "rd_kafka_transport_ssl_clear_error t = t\<lparr>err_queue := [], rd_socket_errno := 0\<rparr>"








subsection \<open>Registering certificates and keys\<close>

text \<open>
  The options of \<^verbatim>\<open>rk_conf.ssl\<close> that \<^verbatim>\<open>rd_kafka_ssl_set_certs\<close> reads. For the three
  in-memory objects only their presence matters.
\<close>

record ssl_conf =
  ssl_ca :: bool
  ca_location :: "string option"
  crl_location :: "string option"
  ssl_cert :: bool
  cert_location :: "string option"
  cert_pem :: "string option"
  ssl_key :: bool
  key_location :: "string option"
  key_pem :: "string option"
  keystore_location :: "string option"
  keystore_password :: "string option"

text \<open>
  The places where \<^verbatim>\<open>rd_kafka_ssl_set_certs\<close> calls into OpenSSL, libc or librdkafka,
  in the order of the source. Each place is passed at most once. What a call returns is
  an input of the model (\<open>lib\<close>): the integer result, or 0 for a NULL pointer and 1
  otherwise.
\<close>

datatype lib_call =
  SSL_CTX_set_cert_store
| SSL_CTX_load_verify_locations_ca
| rd_kafka_ssl_win_load_root_certs
| SSL_CTX_set_default_verify_paths
| SSL_CTX_load_verify_locations_crl
| X509_STORE_set_flags
| SSL_CTX_use_certificate_mem
| SSL_CTX_use_certificate_chain_file
| rd_kafka_ssl_X509_from_string
| SSL_CTX_use_certificate_pem
| SSL_CTX_use_PrivateKey_mem
| SSL_CTX_use_PrivateKey_file
| rd_kafka_ssl_PKEY_from_string
| SSL_CTX_use_PrivateKey_pem
| rd_kafka_desensitize_str
| fopen_keystore
| d2i_PKCS12_fp
| PKCS12_parse
| SSL_CTX_use_certificate_p12
| SSL_CTX_use_PrivateKey_p12
| SSL_CTX_check_private_key

text \<open>
  The local variable \<^verbatim>\<open>check_pkey\<close> and the calls made so far. A block of the function
  either goes on with a new state or returns - 1 with a text for \<^verbatim>\<open>errstr\<close>.
\<close>

record certs_state =
  check_pkey :: bool
  lib_calls :: "lib_call list"

type_synonym certs_result = "(string \<times> lib_call list) + certs_state"

definition called :: "lib_call \<Rightarrow> certs_state \<Rightarrow> certs_state" where
  "called c st = st\<lparr>lib_calls := lib_calls st @ [c]\<rparr>"

definition failed :: "string \<Rightarrow> certs_state \<Rightarrow> certs_result" where
  "failed msg st = Inl (msg, lib_calls st)"

definition and_then :: "certs_result \<Rightarrow> (certs_state \<Rightarrow> certs_result) \<Rightarrow> certs_result" where
  "and_then m f = (case m of Inl e \<Rightarrow> Inl e | Inr st \<Rightarrow> f st)"

text \<open>
  CA certificates: \<^verbatim>\<open>ssl_ca\<close>, \<^verbatim>\<open>ssl.ca.location\<close>, the Windows root store (\<open>msc\<close>
  stands for \<^verbatim>\<open>_MSC_VER\<close>) or the default paths, whose failure is ignored.
\<close>

definition load_ca :: "bool \<Rightarrow> ssl_conf \<Rightarrow> (lib_call \<Rightarrow> int) \<Rightarrow> certs_state \<Rightarrow> certs_result" where
  "load_ca msc conf lib st =
     (if ssl_ca conf then Inr (called SSL_CTX_set_cert_store st)
      else if ca_location conf \<noteq> None then
        (if lib SSL_CTX_load_verify_locations_ca \<noteq> 1
         then failed ''ssl.ca.location failed: '' (called SSL_CTX_load_verify_locations_ca st)
         else Inr (called SSL_CTX_load_verify_locations_ca st))
      else
        (let r = (if msc then lib rd_kafka_ssl_win_load_root_certs else - 1);
             st1 = (if msc then called rd_kafka_ssl_win_load_root_certs st else st)
         in if r = - 1 then Inr (called SSL_CTX_set_default_verify_paths st1) else Inr st1))"

definition load_crl :: "ssl_conf \<Rightarrow> (lib_call \<Rightarrow> int) \<Rightarrow> certs_state \<Rightarrow> certs_result" where
  "load_crl conf lib st =
     (if crl_location conf \<noteq> None then
        (if lib SSL_CTX_load_verify_locations_crl \<noteq> 1
         then failed ''ssl.crl.location failed: '' (called SSL_CTX_load_verify_locations_crl st)
         else Inr (called X509_STORE_set_flags (called SSL_CTX_load_verify_locations_crl st)))
      else Inr st)"

text \<open>Certificate: \<^verbatim>\<open>ssl_cert\<close>, \<^verbatim>\<open>ssl.certificate.location\<close>, \<^verbatim>\<open>ssl.certificate.pem\<close>.\<close>

definition load_cert :: "ssl_conf \<Rightarrow> (lib_call \<Rightarrow> int) \<Rightarrow> certs_state \<Rightarrow> certs_result" where
  "load_cert conf lib st =
     (if ssl_cert conf then
        (if lib SSL_CTX_use_certificate_mem \<noteq> 1
         then failed ''ssl_cert failed: '' (called SSL_CTX_use_certificate_mem st)
         else Inr (called SSL_CTX_use_certificate_mem st))
      else Inr st)"

definition load_cert_location ::
  "ssl_conf \<Rightarrow> (lib_call \<Rightarrow> int) \<Rightarrow> certs_state \<Rightarrow> certs_result" where
  "load_cert_location conf lib st =
     (if cert_location conf \<noteq> None then
        (if lib SSL_CTX_use_certificate_chain_file \<noteq> 1
         then failed ''ssl.certificate.location failed: ''
                (called SSL_CTX_use_certificate_chain_file st)
         else Inr (called SSL_CTX_use_certificate_chain_file st))
      else Inr st)"

definition load_cert_pem :: "ssl_conf \<Rightarrow> (lib_call \<Rightarrow> int) \<Rightarrow> certs_state \<Rightarrow> certs_result" where
  "load_cert_pem conf lib st =
     (if cert_pem conf \<noteq> None then
        (if lib rd_kafka_ssl_X509_from_string = 0
         then failed ''ssl.certificate.pem failed: not in PEM format?: ''
                (called rd_kafka_ssl_X509_from_string st)
         else if lib SSL_CTX_use_certificate_pem \<noteq> 1
         then failed ''ssl.certificate.pem failed: ''
                (called SSL_CTX_use_certificate_pem (called rd_kafka_ssl_X509_from_string st))
         else Inr (called SSL_CTX_use_certificate_pem
                     (called rd_kafka_ssl_X509_from_string st)))
      else Inr st)"

text \<open>Private key: \<^verbatim>\<open>ssl_key\<close>, \<^verbatim>\<open>ssl.key.location\<close>, \<^verbatim>\<open>ssl.key.pem\<close>.\<close>

definition load_key :: "ssl_conf \<Rightarrow> (lib_call \<Rightarrow> int) \<Rightarrow> certs_state \<Rightarrow> certs_result" where
  "load_key conf lib st =
     (if ssl_key conf then
        (if lib SSL_CTX_use_PrivateKey_mem \<noteq> 1
         then failed ''ssl_key (in-memory) failed: '' (called SSL_CTX_use_PrivateKey_mem st)
         else Inr ((called SSL_CTX_use_PrivateKey_mem st)\<lparr>check_pkey := True\<rparr>))
      else Inr st)"

definition load_key_location ::
  "ssl_conf \<Rightarrow> (lib_call \<Rightarrow> int) \<Rightarrow> certs_state \<Rightarrow> certs_result" where
  "load_key_location conf lib st =
     (if key_location conf \<noteq> None then
        (if lib SSL_CTX_use_PrivateKey_file \<noteq> 1
         then failed ''ssl.key.location failed: '' (called SSL_CTX_use_PrivateKey_file st)
         else Inr ((called SSL_CTX_use_PrivateKey_file st)\<lparr>check_pkey := True\<rparr>))
      else Inr st)"

definition load_key_pem :: "ssl_conf \<Rightarrow> (lib_call \<Rightarrow> int) \<Rightarrow> certs_state \<Rightarrow> certs_result" where
  "load_key_pem conf lib st =
     (if key_pem conf \<noteq> None then
        (if lib rd_kafka_ssl_PKEY_from_string = 0
         then failed ''ssl.key.pem failed: not in PEM format?: ''
                (called rd_kafka_ssl_PKEY_from_string st)
         else if lib SSL_CTX_use_PrivateKey_pem \<noteq> 1
         then failed ''ssl.key.pem failed: ''
                (called SSL_CTX_use_PrivateKey_pem (called rd_kafka_ssl_PKEY_from_string st))
         else Inr ((called rd_kafka_desensitize_str
                      (called SSL_CTX_use_PrivateKey_pem
                         (called rd_kafka_ssl_PKEY_from_string st)))\<lparr>check_pkey := True\<rparr>))
      else Inr st)"

text \<open>
  \<^verbatim>\<open>ssl.keystore.location\<close>: the PKCS\#12 file with a certificate and a key; \<open>errno\<close> is
  the errno that a failing \<^verbatim>\<open>fopen\<close> leaves.
\<close>

definition load_keystore ::
  "libs \<Rightarrow> int \<Rightarrow> ssl_conf \<Rightarrow> (lib_call \<Rightarrow> int) \<Rightarrow> certs_state \<Rightarrow> certs_result" where
  "load_keystore L errno conf lib st =
     (case keystore_location conf of
        None \<Rightarrow> Inr st
      | Some location \<Rightarrow>
          if lib fopen_keystore = 0
          then failed (''Failed to open ssl.keystore.location: '' @ location @ '': '' @
                       rd_strerror L errno)
                 (called fopen_keystore st)
          else if lib d2i_PKCS12_fp = 0
          then failed ''Error reading PKCS#12 file: ''
                 (called d2i_PKCS12_fp (called fopen_keystore st))
          else if lib PKCS12_parse = 0
          then failed (''Failed to parse PKCS#12 file: '' @ location @ '': '')
                 (called PKCS12_parse (called d2i_PKCS12_fp (called fopen_keystore st)))
          else if lib SSL_CTX_use_certificate_p12 \<noteq> 1
          then failed ''Failed to use ssl.keystore.location certificate: ''
                 (called SSL_CTX_use_certificate_p12
                    (called PKCS12_parse (called d2i_PKCS12_fp (called fopen_keystore st))))
          else if lib SSL_CTX_use_PrivateKey_p12 \<noteq> 1
          then failed ''Failed to use ssl.keystore.location private key: ''
                 (called SSL_CTX_use_PrivateKey_p12
                    (called SSL_CTX_use_certificate_p12
                       (called PKCS12_parse
                          (called d2i_PKCS12_fp (called fopen_keystore st)))))
          else Inr ((called SSL_CTX_use_PrivateKey_p12
                       (called SSL_CTX_use_certificate_p12
                          (called PKCS12_parse
                             (called d2i_PKCS12_fp (called fopen_keystore st)))))
                    \<lparr>check_pkey := True\<rparr>))"

text \<open>
  The blocks of \<^verbatim>\<open>rd_kafka_ssl_set_certs\<close> before the final check, in their order
  (lines 722 to 1000); the function returns from the first block that fails.
\<close>

definition set_certs_load ::
  "bool \<Rightarrow> libs \<Rightarrow> int \<Rightarrow> ssl_conf \<Rightarrow> (lib_call \<Rightarrow> int) \<Rightarrow> certs_result" where
  "set_certs_load msc L errno conf lib =
     and_then (and_then (and_then (and_then (and_then (and_then (and_then (and_then
       (load_ca msc conf lib \<lparr>check_pkey = False, lib_calls = []\<rparr>)
       (load_crl conf lib))
       (load_cert conf lib))
       (load_cert_location conf lib))
       (load_cert_pem conf lib))
       (load_key conf lib))
       (load_key_location conf lib))
       (load_key_pem conf lib))
       (load_keystore L errno conf lib)"

text \<open>
  \<^verbatim>\<open>rd_kafka_ssl_set_certs\<close>: its result, the buffer \<^verbatim>\<open>errstr\<close> and the calls it made.
  \<^verbatim>\<open>SSL_CTX_check_private_key\<close> is called only when \<^verbatim>\<open>check_pkey\<close> is set.
\<close>

definition rd_kafka_ssl_set_certs ::
  "bool \<Rightarrow> libs \<Rightarrow> int \<Rightarrow> ssl_conf \<Rightarrow> (lib_call \<Rightarrow> int) \<Rightarrow> string \<Rightarrow> nat \<Rightarrow>
   int \<times> string \<times> lib_call list" where
  "rd_kafka_ssl_set_certs msc L errno conf lib errstr sz =
     (case set_certs_load msc L errno conf lib of
        Inl (msg, calls) \<Rightarrow> (- 1, rd_snprintf sz errstr msg, calls)
      | Inr st \<Rightarrow>
          if check_pkey st then
            (if lib SSL_CTX_check_private_key \<noteq> 1
             then (- 1, rd_snprintf sz errstr ''Private key check failed: '',
                   lib_calls st @ [SSL_CTX_check_private_key])
             else (0, errstr, lib_calls st @ [SSL_CTX_check_private_key]))
          else (0, errstr, lib_calls st))"

text \<open>
  A private key has been installed when one of the four calls that hand a key to the
  context has been made and has returned 1.
\<close>

definition key_installed :: "(lib_call \<Rightarrow> int) \<Rightarrow> lib_call list \<Rightarrow> bool" where
  "key_installed lib calls =
     (\<exists>c \<in> set [SSL_CTX_use_PrivateKey_mem, SSL_CTX_use_PrivateKey_file,
                 SSL_CTX_use_PrivateKey_pem, SSL_CTX_use_PrivateKey_p12].
        c \<in> set calls \<and> lib c = 1)"

text \<open>
  The invariant of the loading blocks: the check has not been called, and
  \<^verbatim>\<open>check_pkey\<close> is set exactly when a key has been installed, which is the case \<open>c\<close>.
\<close>

definition certs_inv :: "(lib_call \<Rightarrow> int) \<Rightarrow> bool \<Rightarrow> certs_state \<Rightarrow> bool" where
  "certs_inv lib c st =
     (SSL_CTX_check_private_key \<notin> set (lib_calls st) \<and> check_pkey st = c \<and>
      key_installed lib (lib_calls st) = c)"

section \<open>Theorems\<close>

lemma rd_snprintf_twice [simp]:
  "rd_snprintf sz (rd_snprintf sz old s) t = rd_snprintf sz old t"
  by (simp add: rd_snprintf_def)

lemma rd_kafka_ssl_error_loop_nonempty:
  "\<forall>e \<in> set (e0 # q). err_code e \<noteq> 0 \<Longrightarrow>
   rd_kafka_ssl_error_loop L rkb sz (e0 # q) cnt errstr lg =
     ([], cnt + Suc (length q),
      rd_snprintf sz errstr (err_entry_text L (last (e0 # q))),
      (if cnt > 0 then lg @ [Log (if rkb then Broker else Global) LOG_ERR ''SSL'' errstr] else lg) @
      map (\<lambda>e. Log (if rkb then Broker else Global) LOG_ERR ''SSL''
                 (rd_snprintf sz errstr (err_entry_text L e))) (butlast (e0 # q)))"
proof (induction q arbitrary: e0 cnt errstr lg)
  case Nil
  then show ?case by simp
next
  case (Cons e1 q)
  let ?sc = "if rkb then Broker else Global"
  let ?b0 = "rd_snprintf sz errstr (err_entry_text L e0)"
  let ?lg1 = "if cnt > 0 then lg @ [Log ?sc LOG_ERR ''SSL'' errstr] else lg"
  have nz: "err_code e0 \<noteq> 0" and rest: "\<forall>e \<in> set (e1 # q). err_code e \<noteq> 0"
    using Cons.prems by simp_all
  have "rd_kafka_ssl_error_loop L rkb sz (e0 # e1 # q) cnt errstr lg =
        rd_kafka_ssl_error_loop L rkb sz (e1 # q) (cnt + 1) ?b0 ?lg1"
    using nz by (subst rd_kafka_ssl_error_loop.simps(2)) simp
  also have "\<dots> = ([], (cnt + 1) + Suc (length q),
      rd_snprintf sz ?b0 (err_entry_text L (last (e1 # q))),
      (if cnt + 1 > 0 then ?lg1 @ [Log ?sc LOG_ERR ''SSL'' ?b0] else ?lg1) @
      map (\<lambda>e. Log ?sc LOG_ERR ''SSL'' (rd_snprintf sz ?b0 (err_entry_text L e)))
        (butlast (e1 # q)))"
    by (rule Cons.IH [OF rest])
  finally show ?case by simp
qed

lemma rd_kafka_ssl_error_closed:
  assumes "err_queue_ok q"
  shows "rd_kafka_ssl_error L rkb q lg errstr sz =
     ([],
      lg @ map (\<lambda>e. Log (if rkb then Broker else Global) LOG_ERR ''SSL''
                      (rd_snprintf sz errstr (err_entry_text L e))) (butlast q),
      rd_snprintf sz errstr (if q = [] then ''No error'' else err_entry_text L (last q)))"
proof (cases q)
  case Nil
  then show ?thesis by (simp add: rd_kafka_ssl_error_def)
next
  case (Cons e0 q')
  have nz: "\<forall>e \<in> set (e0 # q'). err_code e \<noteq> 0"
    using assms Cons by (simp add: err_queue_ok_def)
  show ?thesis
    unfolding Cons rd_kafka_ssl_error_def
      rd_kafka_ssl_error_loop_nonempty [OF nz] by simp
qed

text \<open>
  C7. Whatever the error queue holds, \<^verbatim>\<open>rd_kafka_ssl_error\<close> empties it from the oldest
  entry on. Every entry but the last is written to the log, in the order of the queue, to
  the broker's log when a broker is given and to the global log otherwise. The last entry
  is formatted as \<^verbatim>\<open>file:line: message: detail\<close> into the caller's buffer (cut to the
  buffer's capacity), and on an empty queue the buffer receives \<^verbatim>\<open>No error\<close>.
\<close>

theorem rd_kafka_ssl_error_drains_queue:
  assumes "err_queue_ok q"
  shows "rd_kafka_ssl_error L rkb q lg errstr sz =
     ([],
      lg @ map (\<lambda>e. Log (if rkb then Broker else Global) LOG_ERR ''SSL''
                      (rd_snprintf sz errstr (err_entry_text L e))) (butlast q),
      rd_snprintf sz errstr (if q = [] then ''No error'' else err_entry_text L (last q)))"
  using assms by (rule rd_kafka_ssl_error_closed)


theorem rd_kafka_ssl_error_drains_queue_witness:
  "err_queue_ok
     [\<lparr>err_code = 1, err_file = ''a.c'', err_line = 12, err_data = ''x'', err_flags = 2\<rparr>,
      \<lparr>err_code = 2, err_file = ''b.c'', err_line = 340, err_data = ''y'', err_flags = 0\<rparr>] \<and>
   rd_kafka_ssl_error
     \<lparr>ERR_error_string = (\<lambda>c. if c = 1 then ''error:1'' else ''error:2''),
      rd_strerror = (\<lambda>_. ''''), X509_verify_cert_error_string = (\<lambda>_. '''')\<rparr>
     True
     [\<lparr>err_code = 1, err_file = ''a.c'', err_line = 12, err_data = ''x'', err_flags = 2\<rparr>,
      \<lparr>err_code = 2, err_file = ''b.c'', err_line = 340, err_data = ''y'', err_flags = 0\<rparr>]
     [] '''' 512 =
   ([], [Log Broker 3 ''SSL'' ''a.c:12: error:1: x''], ''b.c:340: error:2: '')"
proof -
  let ?q = "[\<lparr>err_code = 1, err_file = ''a.c'', err_line = 12, err_data = ''x'', err_flags = 2\<rparr>,
      \<lparr>err_code = 2, err_file = ''b.c'', err_line = 340, err_data = ''y'', err_flags = 0\<rparr>]"
  let ?L = "\<lparr>ERR_error_string = (\<lambda>c. if c = 1 then ''error:1'' else ''error:2''),
      rd_strerror = (\<lambda>_. []), X509_verify_cert_error_string = (\<lambda>_. [])\<rparr>"
  have ok: "err_queue_ok ?q" by (simp add: err_queue_ok_def)
  have d: "fmt_d 12 = ''12''" "fmt_d 340 = ''340''" by code_simp+
  show ?thesis
    using ok rd_kafka_ssl_error_drains_queue [OF ok, of ?L True "[]" "[]" 512]
    by (simp add: rd_snprintf_def err_entry_text_def d
        ERR_TXT_STRING_def LOG_ERR_def)
qed

lemma ERR_peek_error_Nil [simp]: "ERR_peek_error [] = 0"
  by (simp add: ERR_peek_error_def)

lemma ERR_peek_error_zero:
  assumes "err_queue_ok q"
  shows "((ucast (ERR_peek_error q) :: 32 word) = 0) = (q = [])"
proof (cases q)
  case Nil
  then show ?thesis by (simp add: ERR_peek_error_def)
next
  case (Cons e q')
  have nz: "err_code e \<noteq> 0" and small: "unat (err_code e) < 2 ^ 32"
    using assms Cons by (simp_all add: err_queue_ok_def)
  have "unat (ucast (err_code e) :: 32 word) = unat (err_code e)"
    using small by (simp add: unsigned_ucast_eq take_bit_nat_eq_self)
  moreover have "unat (err_code e) \<noteq> 0"
    using nz by (simp add: unat_eq_0)
  ultimately have "(ucast (err_code e) :: 32 word) \<noteq> 0"
    by (metis unat_0)
  then show ?thesis using Cons by (simp add: ERR_peek_error_def)
qed

lemma ssl_error_rkb_closed:
  assumes "err_queue_ok (err_queue t)"
  shows "ssl_error_rkb L t errstr sz =
     (t\<lparr>err_queue := [],
        rkb_log := rkb_log t @
          map (\<lambda>e. Log Broker LOG_ERR ''SSL'' (rd_snprintf sz errstr (err_entry_text L e)))
            (butlast (err_queue t))\<rparr>,
      rd_snprintf sz errstr
        (if err_queue t = [] then ''No error'' else err_entry_text L (last (err_queue t))))"
  by (simp add: ssl_error_rkb_def rd_kafka_ssl_error_closed [OF assms])

text \<open>
  C2. \<^verbatim>\<open>rd_kafka_transport_ssl_io_update\<close> classifies the result of a failed step in one of
  four ways. A wants-read code asks for read readiness and is not fatal; a wants-write or
  wants-connect code asks for write readiness and is not fatal; a syscall failure is fatal,
  with the text \<^verbatim>\<open>Disconnected\<close> when neither a crypto error is queued nor an errno is
  set, with the drained queue when a crypto error is queued, and with the description of
  the errno otherwise; a zero return is fatal with the text \<^verbatim>\<open>Disconnected\<close>; every other
  code is fatal and drains the whole error queue into the buffer.
\<close>

theorem rd_kafka_transport_ssl_io_update_classifies:
  assumes "err_queue_ok (err_queue t)"
  shows
    "(serr = SSL_ERROR_WANT_READ \<longrightarrow>
        rd_kafka_transport_ssl_io_update L t serr errstr sz =
          (0, t\<lparr>rktrans_events := insert POLLIN (rktrans_events t)\<rparr>, errstr)) \<and>
     (serr = SSL_ERROR_WANT_WRITE \<or> serr = SSL_ERROR_WANT_CONNECT \<longrightarrow>
        rd_kafka_transport_ssl_io_update L t serr errstr sz =
          (0, t\<lparr>rktrans_events := insert POLLOUT (rktrans_events t)\<rparr>, errstr)) \<and>
     (serr = SSL_ERROR_SYSCALL \<and> err_queue t = [] \<and> rd_socket_errno t = 0 \<longrightarrow>
        rd_kafka_transport_ssl_io_update L t serr errstr sz =
          (- 1, t, rd_snprintf sz errstr ''Disconnected'')) \<and>
     (serr = SSL_ERROR_SYSCALL \<and> err_queue t \<noteq> [] \<longrightarrow>
        rd_kafka_transport_ssl_io_update L t serr errstr sz =
          (- 1,
           t\<lparr>err_queue := [],
             rkb_log := rkb_log t @
               map (\<lambda>e. Log Broker LOG_ERR ''SSL''
                          (rd_snprintf sz errstr (err_entry_text L e)))
                 (butlast (err_queue t))\<rparr>,
           rd_snprintf sz errstr (err_entry_text L (last (err_queue t))))) \<and>
     (serr = SSL_ERROR_SYSCALL \<and> err_queue t = [] \<and> rd_socket_errno t \<noteq> 0 \<longrightarrow>
        rd_kafka_transport_ssl_io_update L t serr errstr sz =
          (- 1, t, rd_snprintf sz errstr
                     (''SSL transport error: '' @ rd_strerror L (rd_socket_errno t)))) \<and>
     (serr = SSL_ERROR_ZERO_RETURN \<longrightarrow>
        rd_kafka_transport_ssl_io_update L t serr errstr sz =
          (- 1, t, rd_snprintf sz errstr ''Disconnected'')) \<and>
     (serr \<notin> {SSL_ERROR_WANT_READ, SSL_ERROR_WANT_WRITE, SSL_ERROR_WANT_CONNECT,
               SSL_ERROR_SYSCALL, SSL_ERROR_ZERO_RETURN} \<longrightarrow>
        rd_kafka_transport_ssl_io_update L t serr errstr sz =
          (- 1,
           t\<lparr>err_queue := [],
             rkb_log := rkb_log t @
               map (\<lambda>e. Log Broker LOG_ERR ''SSL''
                          (rd_snprintf sz errstr (err_entry_text L e)))
                 (butlast (err_queue t))\<rparr>,
           rd_snprintf sz errstr
             (if err_queue t = [] then ''No error''
              else err_entry_text L (last (err_queue t)))))"
proof -
  note pk = ERR_peek_error_zero [OF assms]
  note dr = ssl_error_rkb_closed [OF assms]
  have c: "SSL_ERROR_WANT_READ = 2" "SSL_ERROR_WANT_WRITE = 3" "SSL_ERROR_SYSCALL = 5"
    "SSL_ERROR_ZERO_RETURN = 6" "SSL_ERROR_WANT_CONNECT = 7"
    by (simp_all add: SSL_ERROR_WANT_READ_def SSL_ERROR_WANT_WRITE_def SSL_ERROR_SYSCALL_def
        SSL_ERROR_ZERO_RETURN_def SSL_ERROR_WANT_CONNECT_def)
  show ?thesis
    by (simp add: rd_kafka_transport_ssl_io_update_def rd_kafka_transport_poll_set_def
        pk dr c Let_def)
qed

theorem rd_kafka_transport_ssl_io_update_classifies_witness:
  "err_queue_ok
     [\<lparr>err_code = 1, err_file = ''a.c'', err_line = 12, err_data = ''x'', err_flags = 2\<rparr>] \<and>
   rd_kafka_transport_ssl_io_update
     \<lparr>ERR_error_string = (\<lambda>c. ''error:1''), rd_strerror = (\<lambda>_. ''Connection reset by peer''),
      X509_verify_cert_error_string = (\<lambda>_. [])\<rparr>
     \<lparr>err_queue =
        [\<lparr>err_code = 1, err_file = ''a.c'', err_line = 12, err_data = ''x'', err_flags = 2\<rparr>],
      rd_socket_errno = 104, rkb_log = [], rktrans_events = {}, ssl_calls = 0\<rparr>
     5 [] 512 =
   (- 1,
    \<lparr>err_queue = [], rd_socket_errno = 104, rkb_log = [], rktrans_events = {}, ssl_calls = 0\<rparr>,
    ''a.c:12: error:1: x'') \<and>
   err_queue_ok [] \<and>
   rd_kafka_transport_ssl_io_update
     \<lparr>ERR_error_string = (\<lambda>c. ''error:1''), rd_strerror = (\<lambda>_. ''Connection reset by peer''),
      X509_verify_cert_error_string = (\<lambda>_. [])\<rparr>
     \<lparr>err_queue = [], rd_socket_errno = 104, rkb_log = [], rktrans_events = {}, ssl_calls = 0\<rparr>
     5 [] 512 =
   (- 1,
    \<lparr>err_queue = [], rd_socket_errno = 104, rkb_log = [], rktrans_events = {}, ssl_calls = 0\<rparr>,
    ''SSL transport error: Connection reset by peer'') \<and>
   rd_kafka_transport_ssl_io_update
     \<lparr>ERR_error_string = (\<lambda>c. ''error:1''), rd_strerror = (\<lambda>_. ''Connection reset by peer''),
      X509_verify_cert_error_string = (\<lambda>_. [])\<rparr>
     \<lparr>err_queue = [], rd_socket_errno = 0, rkb_log = [], rktrans_events = {}, ssl_calls = 0\<rparr>
     2 [] 512 =
   (0,
    \<lparr>err_queue = [], rd_socket_errno = 0, rkb_log = [], rktrans_events = {POLLIN}, ssl_calls = 0\<rparr>,
    [])"
proof -
  let ?L = "\<lparr>ERR_error_string = (\<lambda>c. ''error:1''),
      rd_strerror = (\<lambda>_. ''Connection reset by peer''),
      X509_verify_cert_error_string = (\<lambda>_. [])\<rparr>"
  let ?q = "[\<lparr>err_code = 1, err_file = ''a.c'', err_line = 12, err_data = ''x'',
      err_flags = 2\<rparr>]"
  let ?t1 = "\<lparr>err_queue = ?q, rd_socket_errno = 104, rkb_log = [], rktrans_events = {},
      ssl_calls = 0\<rparr>"
  let ?t2 = "\<lparr>err_queue = [], rd_socket_errno = 104, rkb_log = [], rktrans_events = {},
      ssl_calls = 0\<rparr>"
  let ?t3 = "\<lparr>err_queue = [], rd_socket_errno = 0, rkb_log = [], rktrans_events = {},
      ssl_calls = 0\<rparr>"
  have ok1: "err_queue_ok (err_queue ?t1)" by (simp add: err_queue_ok_def)
  have ok2: "err_queue_ok (err_queue ?t2)" by (simp add: err_queue_ok_def)
  have ok3: "err_queue_ok (err_queue ?t3)" by (simp add: err_queue_ok_def)
  have d: "fmt_d 12 = ''12''" by code_simp
  have c: "SSL_ERROR_WANT_READ = 2" "SSL_ERROR_SYSCALL = 5"
    by (simp_all add: SSL_ERROR_WANT_READ_def SSL_ERROR_SYSCALL_def)
  show ?thesis
    using ok1 ok2
      rd_kafka_transport_ssl_io_update_classifies [OF ok1, of 5 ?L "[]" 512]
      rd_kafka_transport_ssl_io_update_classifies [OF ok2, of 5 ?L "[]" 512]
      rd_kafka_transport_ssl_io_update_classifies [OF ok3, of 2 ?L "[]" 512]
    by (simp add: c rd_snprintf_def err_entry_text_def d ERR_TXT_STRING_def)
qed

text \<open>
  C1. When \<^verbatim>\<open>SSL_do_handshake\<close> reports completion and peer verification is enabled,
  the handshake step returns 1 (established) only if the peer presented a certificate and
  its verification result is \<^verbatim>\<open>X509_V_OK\<close>. Without a peer certificate the step returns
  - 1 and fails the connection with \<^verbatim>\<open>Broker did not provide a certificate\<close>, and is
  not marked established; with a failed verification it returns - 1 and fails the
  connection with a message that ends in OpenSSL's own text for the verification result.
\<close>

theorem rd_kafka_transport_ssl_handshake_verifies:
  assumes "enable_verify"
  shows
    "(fst (rd_kafka_transport_ssl_handshake L enable_verify sess t 1 serr errstr) = 1 \<longrightarrow>
        peer_certificate sess \<noteq> None \<and> verify_result sess = X509_V_OK) \<and>
     (peer_certificate sess = None \<longrightarrow>
        rd_kafka_transport_ssl_handshake L enable_verify sess t 1 serr errstr =
          (- 1, t, [Broker_fail LOG_ERR RD_KAFKA_RESP_ERR__SSL
                      ''Broker did not provide a certificate''])) \<and>
     (peer_certificate sess \<noteq> None \<and> verify_result sess \<noteq> X509_V_OK \<longrightarrow>
        rd_kafka_transport_ssl_handshake L enable_verify sess t 1 serr errstr =
          (- 1, t, [Broker_fail LOG_ERR RD_KAFKA_RESP_ERR__SSL
                      (''Failed to verify broker certificate: '' @
                       X509_verify_cert_error_string L (verify_result sess))])) \<and>
     (peer_certificate sess \<noteq> None \<and> verify_result sess = X509_V_OK \<longrightarrow>
        rd_kafka_transport_ssl_handshake L enable_verify sess t 1 serr errstr =
          (1, t, [Connect_done]))"
  using assms
  by (simp add: rd_kafka_transport_ssl_handshake_def rd_kafka_transport_ssl_verify_def)

theorem rd_kafka_transport_ssl_handshake_verifies_witness:
  "rd_kafka_transport_ssl_handshake
     \<lparr>ERR_error_string = (\<lambda>_. []), rd_strerror = (\<lambda>_. []),
      X509_verify_cert_error_string = (\<lambda>_. ''self signed certificate'')\<rparr>
     True \<lparr>peer_certificate = None, verify_result = 0\<rparr>
     \<lparr>err_queue = [], rd_socket_errno = 0, rkb_log = [], rktrans_events = {}, ssl_calls = 0\<rparr>
     1 0 [] =
   (- 1,
    \<lparr>err_queue = [], rd_socket_errno = 0, rkb_log = [], rktrans_events = {}, ssl_calls = 0\<rparr>,
    [Broker_fail 3 RD_KAFKA_RESP_ERR__SSL ''Broker did not provide a certificate'']) \<and>
   rd_kafka_transport_ssl_handshake
     \<lparr>ERR_error_string = (\<lambda>_. []), rd_strerror = (\<lambda>_. []),
      X509_verify_cert_error_string = (\<lambda>_. ''self signed certificate'')\<rparr>
     True
     \<lparr>peer_certificate = Some \<lparr>x509_subject = ''/CN=broker'', x509_issuer = ''/CN=broker''\<rparr>,
      verify_result = 18\<rparr>
     \<lparr>err_queue = [], rd_socket_errno = 0, rkb_log = [], rktrans_events = {}, ssl_calls = 0\<rparr>
     1 0 [] =
   (- 1,
    \<lparr>err_queue = [], rd_socket_errno = 0, rkb_log = [], rktrans_events = {}, ssl_calls = 0\<rparr>,
    [Broker_fail 3 RD_KAFKA_RESP_ERR__SSL
       ''Failed to verify broker certificate: self signed certificate''])"
proof -
  let ?L = "\<lparr>ERR_error_string = (\<lambda>_. []), rd_strerror = (\<lambda>_. []),
      X509_verify_cert_error_string = (\<lambda>_. ''self signed certificate'')\<rparr>"
  let ?t = "\<lparr>err_queue = [], rd_socket_errno = 0, rkb_log = [], rktrans_events = {},
      ssl_calls = 0\<rparr>"
  let ?s1 = "\<lparr>peer_certificate = None, verify_result = 0\<rparr>"
  let ?s2 = "\<lparr>peer_certificate =
      Some \<lparr>x509_subject = ''/CN=broker'', x509_issuer = ''/CN=broker''\<rparr>,
      verify_result = 18\<rparr>"
  have v: "True" by simp
  show ?thesis
    using rd_kafka_transport_ssl_handshake_verifies [OF v, of ?L ?s1 ?t 0 "[]"]
      rd_kafka_transport_ssl_handshake_verifies [OF v, of ?L ?s2 ?t 0 "[]"]
    by (simp add: X509_V_OK_def LOG_ERR_def)
qed

text \<open>
  C5. When the hook reaches the application's callback and the callback rejects, the hook
  stores the error code the callback left into the chain's error state, logs the subject
  and the issuer of the certificate with the callback's text, and rejects. When the
  callback accepts, and the chain's error code was not zero on entry and the callback set
  it to zero, the hook sets the chain's error state to zero and accepts.
\<close>

theorem rd_kafka_transport_ssl_cert_verify_cb_verdict:
  assumes "current_cert x509_ctx = Some cert"
    and "i2d cert = (buf_size, Some bytes)" and "0 \<le> buf_size"
    and "cb rkb_nodename rkb_nodeid (ctx_error x509_ctx) (error_depth x509_ctx) bytes
           (nat buf_size) = (ok, x509_error, errstr)"
  shows
    "(ok = 0 \<longrightarrow>
        rd_kafka_transport_ssl_cert_verify_cb cb i2d rkb_nodename rkb_nodeid
            preverify_ok x509_ctx lg =
          (0, x509_ctx\<lparr>ctx_error := x509_error\<rparr>,
           lg @ [Log Broker LOG_ERR ''SSLCERTVRFY''
                   (''Certificate (subject='' @ take 127 (x509_subject cert) @
                    '', issuer='' @ take 127 (x509_issuer cert) @
                    '') verification callback failed: '' @ errstr)],
           Some (ok, x509_error, errstr))) \<and>
     (ok \<noteq> 0 \<and> ctx_error x509_ctx \<noteq> 0 \<and> x509_error = 0 \<longrightarrow>
        rd_kafka_transport_ssl_cert_verify_cb cb i2d rkb_nodename rkb_nodeid
            preverify_ok x509_ctx lg =
          (1, x509_ctx\<lparr>ctx_error := 0\<rparr>, lg, Some (ok, x509_error, errstr))) \<and>
     (ok \<noteq> 0 \<and> \<not> (ctx_error x509_ctx \<noteq> 0 \<and> x509_error = 0) \<longrightarrow>
        rd_kafka_transport_ssl_cert_verify_cb cb i2d rkb_nodename rkb_nodeid
            preverify_ok x509_ctx lg =
          (1, x509_ctx, lg, Some (ok, x509_error, errstr)))"
  using assms
  by (simp add: rd_kafka_transport_ssl_cert_verify_cb_def)

theorem rd_kafka_transport_ssl_cert_verify_cb_verdict_witness:
  "rd_kafka_transport_ssl_cert_verify_cb
     (\<lambda>name id err depth bytes size. (0, 10, ''expired''))
     (\<lambda>c. (3, Some [48, 130, 1]))
     ''broker1:9092'' 1 0
     \<lparr>current_cert = Some \<lparr>x509_subject = ''/CN=broker1'', x509_issuer = ''/CN=ca''\<rparr>,
      ctx_error = 18, error_depth = 0\<rparr> [] =
   (0,
    \<lparr>current_cert = Some \<lparr>x509_subject = ''/CN=broker1'', x509_issuer = ''/CN=ca''\<rparr>,
      ctx_error = 10, error_depth = 0\<rparr>,
    [Log Broker 3 ''SSLCERTVRFY''
       ''Certificate (subject=/CN=broker1, issuer=/CN=ca) verification callback failed: expired''],
    Some (0, 10, ''expired'')) \<and>
   rd_kafka_transport_ssl_cert_verify_cb
     (\<lambda>name id err depth bytes size. (1, 0, []))
     (\<lambda>c. (3, Some [48, 130, 1]))
     ''broker1:9092'' 1 0
     \<lparr>current_cert = Some \<lparr>x509_subject = ''/CN=broker1'', x509_issuer = ''/CN=ca''\<rparr>,
      ctx_error = 18, error_depth = 0\<rparr> [] =
   (1,
    \<lparr>current_cert = Some \<lparr>x509_subject = ''/CN=broker1'', x509_issuer = ''/CN=ca''\<rparr>,
      ctx_error = 0, error_depth = 0\<rparr>,
    [], Some (1, 0, []))"
proof -
  let ?cert = "\<lparr>x509_subject = ''/CN=broker1'', x509_issuer = ''/CN=ca''\<rparr>"
  let ?ctx = "\<lparr>current_cert = Some ?cert, ctx_error = 18, error_depth = 0\<rparr>"
  let ?i2d = "\<lambda>c :: x509. (3 :: int, Some [48, 130, 1 :: 8 word])"
  let ?rej = "\<lambda>(name :: string) (id :: int) (err :: int) (depth :: int) (bytes :: 8 word list)
      (size :: nat).
      (0 :: int, 10 :: int, ''expired'')"
  let ?acc = "\<lambda>(name :: string) (id :: int) (err :: int) (depth :: int) (bytes :: 8 word list)
      (size :: nat).
      (1 :: int, 0 :: int, [] :: string)"
  show ?thesis
    using rd_kafka_transport_ssl_cert_verify_cb_verdict
        [where x509_ctx = ?ctx and cert = ?cert and i2d = ?i2d and buf_size = 3
           and bytes = "[48, 130, 1]" and cb = ?rej and rkb_nodename = "''broker1:9092''"
           and rkb_nodeid = 1 and ok = 0 and x509_error = 10 and errstr = "''expired''"
           and preverify_ok = 0 and lg = "[]"]
      rd_kafka_transport_ssl_cert_verify_cb_verdict
        [where x509_ctx = ?ctx and cert = ?cert and i2d = ?i2d and buf_size = 3
           and bytes = "[48, 130, 1]" and cb = ?acc and rkb_nodename = "''broker1:9092''"
           and rkb_nodeid = 1 and ok = 1 and x509_error = 0 and errstr = "[]"
           and preverify_ok = 0 and lg = "[]"]
    by (simp add: LOG_ERR_def)
qed

text \<open>
  C9. The hook fails closed. When the chain context has no current certificate, or the
  certificate cannot be encoded (the encoder returns a negative size or no buffer), the
  hook rejects without calling the application's callback. Whenever the hook accepts, the
  application's callback has been called and has accepted.
\<close>

theorem rd_kafka_transport_ssl_cert_verify_cb_fails_closed:
  "(current_cert x509_ctx = None \<longrightarrow>
      fst (rd_kafka_transport_ssl_cert_verify_cb cb i2d rkb_nodename rkb_nodeid
             preverify_ok x509_ctx lg) = 0 \<and>
      snd (snd (snd (rd_kafka_transport_ssl_cert_verify_cb cb i2d rkb_nodename
             rkb_nodeid preverify_ok x509_ctx lg))) = None) \<and>
   (\<forall>cert. current_cert x509_ctx = Some cert \<and>
        (fst (i2d cert) < 0 \<or> snd (i2d cert) = None) \<longrightarrow>
      fst (rd_kafka_transport_ssl_cert_verify_cb cb i2d rkb_nodename rkb_nodeid
             preverify_ok x509_ctx lg) = 0 \<and>
      snd (snd (snd (rd_kafka_transport_ssl_cert_verify_cb cb i2d rkb_nodename
             rkb_nodeid preverify_ok x509_ctx lg))) = None) \<and>
   (fst (rd_kafka_transport_ssl_cert_verify_cb cb i2d rkb_nodename rkb_nodeid
             preverify_ok x509_ctx lg) \<noteq> 0 \<longrightarrow>
      (\<exists>cert bytes ok x509_error errstr.
         current_cert x509_ctx = Some cert \<and>
         snd (i2d cert) = Some bytes \<and> 0 \<le> fst (i2d cert) \<and>
         cb rkb_nodename rkb_nodeid (ctx_error x509_ctx) (error_depth x509_ctx) bytes
           (nat (fst (i2d cert))) = (ok, x509_error, errstr) \<and> ok \<noteq> 0 \<and>
         snd (snd (snd (rd_kafka_transport_ssl_cert_verify_cb cb i2d rkb_nodename
             rkb_nodeid preverify_ok x509_ctx lg))) = Some (ok, x509_error, errstr)))"
  by (auto simp: rd_kafka_transport_ssl_cert_verify_cb_def Let_def
      split: option.splits prod.splits if_splits)

theorem rd_kafka_transport_ssl_cert_verify_cb_fails_closed_witness:
  "rd_kafka_transport_ssl_cert_verify_cb
     (\<lambda>name id err depth bytes size. (1, 0, []))
     (\<lambda>c. (- 1, None))
     ''broker1:9092'' 1 1
     \<lparr>current_cert = Some \<lparr>x509_subject = ''/CN=broker1'', x509_issuer = ''/CN=ca''\<rparr>,
      ctx_error = 0, error_depth = 0\<rparr> [] =
   (0,
    \<lparr>current_cert = Some \<lparr>x509_subject = ''/CN=broker1'', x509_issuer = ''/CN=ca''\<rparr>,
      ctx_error = 0, error_depth = 0\<rparr>,
    [Log Broker 3 ''SSLCERTVRFY'' ''Unable to convert certificate to X509 format''], None) \<and>
   fst (rd_kafka_transport_ssl_cert_verify_cb
     (\<lambda>name id err depth bytes size. (1, 0, []))
     (\<lambda>c. (3, Some [48, 130, 1]))
     ''broker1:9092'' 1 1
     \<lparr>current_cert = None, ctx_error = 0, error_depth = 0\<rparr> []) = 0"
proof -
  let ?cert = "\<lparr>x509_subject = ''/CN=broker1'', x509_issuer = ''/CN=ca''\<rparr>"
  let ?ctx = "\<lparr>current_cert = Some ?cert, ctx_error = 0, error_depth = 0\<rparr>"
  let ?ctx0 = "\<lparr>current_cert = None, ctx_error = 0, error_depth = 0\<rparr>"
  let ?bad = "\<lambda>c :: x509. (- 1 :: int, None :: 8 word list option)"
  let ?i2d = "\<lambda>c :: x509. (3 :: int, Some [48, 130, 1 :: 8 word])"
  let ?acc = "\<lambda>(name :: string) (id :: int) (err :: int) (depth :: int) (bytes :: 8 word list)
      (size :: nat).
      (1 :: int, 0 :: int, [] :: string)"
  show ?thesis
    using rd_kafka_transport_ssl_cert_verify_cb_fails_closed
        [of ?ctx ?acc ?bad "''broker1:9092''" 1 1 "[]"]
      rd_kafka_transport_ssl_cert_verify_cb_fails_closed
        [of ?ctx0 ?acc ?i2d "''broker1:9092''" 1 1 "[]"]
    by (simp add: rd_kafka_transport_ssl_cert_verify_cb_def LOG_ERR_def)
qed

lemma sint_of_nat_small:
  assumes "n < 2 ^ 31"
  shows "sint (word_of_nat n :: 32 word) = int n"
proof -
  have "sint (word_of_nat n :: 32 word) = sint (word_of_int (int n) :: 32 word)"
    by simp
  also have "\<dots> = (int n + 2 ^ 31) mod 2 ^ 32 - 2 ^ 31"
    by (simp only: int_word_sint) simp
  also have "\<dots> = int n"
    using assms by simp
  finally show ?thesis .
qed


text \<open>
  C10. Without a configured passphrase the password callback returns - 1 and leaves the
  buffer as it is. With a passphrase of length \<open>L\<close> and a buffer of capacity \<open>S\<close> it
  copies the first \<open>min L S\<close> bytes of the passphrase to the start of the buffer and
  returns \<open>L\<close>, also when \<open>L\<close> is larger than \<open>S\<close> and fewer than \<open>L\<close> bytes were written.
\<close>

theorem rd_kafka_transport_ssl_passwd_cb_returns_length:
  "rd_kafka_transport_ssl_passwd_cb None buf sz lg =
     Some (- 1, buf,
           lg @ [Log Global LOG_WARNING ''SSLPASSWD''
                   ''Private key requires password but no password configured (ssl.key.password)'']) \<and>
   (length pw < 2 ^ 31 \<and> 0 \<le> sz \<and> nat sz \<le> length buf \<longrightarrow>
      rd_kafka_transport_ssl_passwd_cb (Some pw) buf sz lg =
        Some (int (length pw),
              take (min (length pw) (nat sz)) pw @ drop (min (length pw) (nat sz)) buf,
              lg))"
proof -
  have "rd_kafka_transport_ssl_passwd_cb (Some pw) buf sz lg =
        Some (int (length pw),
              take (min (length pw) (nat sz)) pw @ drop (min (length pw) (nat sz)) buf,
              lg)"
    if small: "length pw < 2 ^ 31" and pos: "0 \<le> sz" and cap: "nat sz \<le> length buf"
  proof -
    have n: "nat (min (int (length pw)) sz) = min (length pw) (nat sz)"
      using pos by (cases "int (length pw) \<le> sz") (auto simp: min_def)
    have nn: "\<not> min (int (length pw)) sz < 0"
      using pos by simp
    show ?thesis
      using cap
      by (simp add: rd_kafka_transport_ssl_passwd_cb_def sint_of_nat_small [OF small]
          Let_def memcpy_def n nn del: min_less_iff_disj)
  qed
  then show ?thesis
    by (simp add: rd_kafka_transport_ssl_passwd_cb_def)
qed

theorem rd_kafka_transport_ssl_passwd_cb_returns_length_witness:
  "rd_kafka_transport_ssl_passwd_cb (Some ''secret'') ''........'' 4 [] =
     Some (6, ''secr....'', []) \<and>
   rd_kafka_transport_ssl_passwd_cb (Some ''secret'') ''........'' 8 [] =
     Some (6, ''secret..'', [])"
  using rd_kafka_transport_ssl_passwd_cb_returns_length [of "''........''" 4 "[]" "''secret''"]
    rd_kafka_transport_ssl_passwd_cb_returns_length [of "''........''" 8 "[]" "''secret''"]
  by simp












lemma ssl_calls_ssl_called [simp]: "ssl_calls (ssl_called t res) = Suc (ssl_calls t)"
  by (simp add: ssl_called_def)

lemma ssl_calls_clear_error [simp]:
  "ssl_calls (rd_kafka_transport_ssl_clear_error t) = ssl_calls t"
  by (simp add: rd_kafka_transport_ssl_clear_error_def)















lemma and_then_rule:
  assumes "case m of Inl e \<Rightarrow> E e | Inr st \<Rightarrow> P st"
    and "\<And>st. P st \<Longrightarrow> (case f st of Inl e \<Rightarrow> E e | Inr st' \<Rightarrow> Q st')"
  shows "case and_then m f of Inl e \<Rightarrow> E e | Inr st' \<Rightarrow> Q st'"
  using assms by (cases m) (simp_all add: and_then_def)

lemma key_installed_append:
  "key_installed lib (calls @ cs) = (key_installed lib calls \<or> key_installed lib cs)"
  by (auto simp: key_installed_def)

lemma key_installed_Nil: "key_installed lib [] = False"
  by (simp add: key_installed_def)

lemma key_installed_Cons:
  "key_installed lib (c # cs) =
     ((c \<in> {SSL_CTX_use_PrivateKey_mem, SSL_CTX_use_PrivateKey_file,
              SSL_CTX_use_PrivateKey_pem, SSL_CTX_use_PrivateKey_p12} \<and> lib c = 1) \<or>
      key_installed lib cs)"
  by (auto simp: key_installed_def)

lemmas certs_simps =
  certs_inv_def called_def failed_def key_installed_append key_installed_Nil
  key_installed_Cons

lemma load_ca_inv:
  "certs_inv lib c st \<Longrightarrow>
   (case load_ca msc conf lib st of
      Inl e \<Rightarrow> SSL_CTX_check_private_key \<notin> set (snd e)
    | Inr st' \<Rightarrow> certs_inv lib c st')"
  by (auto simp: load_ca_def Let_def certs_simps
      split: sum.splits)

lemma load_crl_inv:
  "certs_inv lib c st \<Longrightarrow>
   (case load_crl conf lib st of
      Inl e \<Rightarrow> SSL_CTX_check_private_key \<notin> set (snd e)
    | Inr st' \<Rightarrow> certs_inv lib c st')"
  by (auto simp: load_crl_def certs_simps
      split: sum.splits)

lemma load_cert_inv:
  "certs_inv lib c st \<Longrightarrow>
   (case load_cert conf lib st of
      Inl e \<Rightarrow> SSL_CTX_check_private_key \<notin> set (snd e)
    | Inr st' \<Rightarrow> certs_inv lib c st')"
  by (auto simp: load_cert_def certs_simps
      split: sum.splits)

lemma load_cert_location_inv:
  "certs_inv lib c st \<Longrightarrow>
   (case load_cert_location conf lib st of
      Inl e \<Rightarrow> SSL_CTX_check_private_key \<notin> set (snd e)
    | Inr st' \<Rightarrow> certs_inv lib c st')"
  by (auto simp: load_cert_location_def certs_simps
      split: sum.splits)

lemma load_cert_pem_inv:
  "certs_inv lib c st \<Longrightarrow>
   (case load_cert_pem conf lib st of
      Inl e \<Rightarrow> SSL_CTX_check_private_key \<notin> set (snd e)
    | Inr st' \<Rightarrow> certs_inv lib c st')"
  by (auto simp: load_cert_pem_def certs_simps
      split: sum.splits)

lemma load_key_inv:
  "certs_inv lib c st \<Longrightarrow>
   (case load_key conf lib st of
      Inl e \<Rightarrow> SSL_CTX_check_private_key \<notin> set (snd e)
    | Inr st' \<Rightarrow> certs_inv lib (c \<or> ssl_key conf) st')"
  by (auto simp: load_key_def certs_simps
      split: sum.splits)

lemma load_key_location_inv:
  "certs_inv lib c st \<Longrightarrow>
   (case load_key_location conf lib st of
      Inl e \<Rightarrow> SSL_CTX_check_private_key \<notin> set (snd e)
    | Inr st' \<Rightarrow> certs_inv lib (c \<or> key_location conf \<noteq> None) st')"
  by (auto simp: load_key_location_def certs_simps
      split: sum.splits)

lemma load_key_pem_inv:
  "certs_inv lib c st \<Longrightarrow>
   (case load_key_pem conf lib st of
      Inl e \<Rightarrow> SSL_CTX_check_private_key \<notin> set (snd e)
    | Inr st' \<Rightarrow> certs_inv lib (c \<or> key_pem conf \<noteq> None) st')"
  by (auto simp: load_key_pem_def certs_simps
      split: sum.splits)

lemma load_keystore_inv:
  "certs_inv lib c st \<Longrightarrow>
   (case load_keystore L errno conf lib st of
      Inl e \<Rightarrow> SSL_CTX_check_private_key \<notin> set (snd e)
    | Inr st' \<Rightarrow> certs_inv lib (c \<or> keystore_location conf \<noteq> None) st')"
  by (auto simp: load_keystore_def certs_simps
      split: sum.splits option.splits)

lemma set_certs_load_inv:
  "case set_certs_load msc L errno conf lib of
     Inl e \<Rightarrow> SSL_CTX_check_private_key \<notin> set (snd e)
   | Inr st \<Rightarrow>
       certs_inv lib
         ((((False \<or> ssl_key conf) \<or> key_location conf \<noteq> None) \<or> key_pem conf \<noteq> None) \<or>
          keystore_location conf \<noteq> None) st"
  unfolding set_certs_load_def
  apply (rule and_then_rule [OF _ load_keystore_inv])
  apply (rule and_then_rule [OF _ load_key_pem_inv])
  apply (rule and_then_rule [OF _ load_key_location_inv])
  apply (rule and_then_rule [OF _ load_key_inv])
  apply (rule and_then_rule [OF _ load_cert_pem_inv])
  apply (rule and_then_rule [OF _ load_cert_location_inv])
  apply (rule and_then_rule [OF _ load_cert_inv])
  apply (rule and_then_rule [OF _ load_crl_inv])
  apply (rule load_ca_inv)
  defer
  apply assumption+
  apply (simp add: certs_simps)
  done

text \<open>
  C4, as the claim states it, fails: the key match check would run whenever a private key
  has been installed. With an in-memory key that installs and a PKCS\#12 file that cannot
  be opened, the key is installed, the function returns - 1 from the keystore block, and
  \<^verbatim>\<open>SSL_CTX_check_private_key\<close> is never called.
\<close>

theorem rd_kafka_ssl_set_certs_key_check_counterexample:
  "rd_kafka_ssl_set_certs False
     \<lparr>ERR_error_string = (\<lambda>_. []), rd_strerror = (\<lambda>_. ''No such file or directory''),
      X509_verify_cert_error_string = (\<lambda>_. [])\<rparr>
     2
     \<lparr>ssl_ca = False, ca_location = None, crl_location = None, ssl_cert = False,
      cert_location = None, cert_pem = None, ssl_key = True, key_location = None,
      key_pem = None, keystore_location = Some ''/etc/client.p12'',
      keystore_password = None\<rparr>
     (\<lambda>c. if c = fopen_keystore then 0 else 1) [] 512 =
   (- 1, ''Failed to open ssl.keystore.location: /etc/client.p12: No such file or directory'',
    [SSL_CTX_set_default_verify_paths, SSL_CTX_use_PrivateKey_mem, fopen_keystore]) \<and>
   key_installed (\<lambda>c. if c = fopen_keystore then 0 else 1)
     [SSL_CTX_set_default_verify_paths, SSL_CTX_use_PrivateKey_mem, fopen_keystore] \<and>
   SSL_CTX_check_private_key \<notin>
     set [SSL_CTX_set_default_verify_paths, SSL_CTX_use_PrivateKey_mem, fopen_keystore]"
  by (simp add: rd_kafka_ssl_set_certs_def set_certs_load_def and_then_def load_ca_def
      load_crl_def load_cert_def load_cert_location_def load_cert_pem_def load_key_def
      load_key_location_def load_key_pem_def load_keystore_def called_def failed_def
      rd_snprintf_def key_installed_def)

text \<open>
  C4, amended. \<^verbatim>\<open>SSL_CTX_check_private_key\<close> is called only if a private key has been
  installed (from the in-memory key, the key file, the PEM key or the PKCS\#12 file).
  When no block before the check has failed, it is called if and only if a key has been
  installed, which is then the case exactly when one of the four key sources is
  configured. When the check is called and does not return 1, the function returns - 1
  with the text \<^verbatim>\<open>Private key check failed: \<close> in \<^verbatim>\<open>errstr\<close>. When no block has failed
  and the check, if called, returns 1, the function returns 0 and leaves \<^verbatim>\<open>errstr\<close>.
\<close>

theorem rd_kafka_ssl_set_certs_key_check:
  "(SSL_CTX_check_private_key \<in>
      set (snd (snd (rd_kafka_ssl_set_certs msc L errno conf lib errstr sz))) \<longrightarrow>
    key_installed lib (snd (snd (rd_kafka_ssl_set_certs msc L errno conf lib errstr sz)))) \<and>
   ((\<exists>st. set_certs_load msc L errno conf lib = Inr st) \<longrightarrow>
    (SSL_CTX_check_private_key \<in>
       set (snd (snd (rd_kafka_ssl_set_certs msc L errno conf lib errstr sz)))) =
      key_installed lib (snd (snd (rd_kafka_ssl_set_certs msc L errno conf lib errstr sz))) \<and>
    key_installed lib (snd (snd (rd_kafka_ssl_set_certs msc L errno conf lib errstr sz))) =
      (ssl_key conf \<or> key_location conf \<noteq> None \<or> key_pem conf \<noteq> None \<or>
       keystore_location conf \<noteq> None)) \<and>
   (SSL_CTX_check_private_key \<in>
      set (snd (snd (rd_kafka_ssl_set_certs msc L errno conf lib errstr sz))) \<and>
    lib SSL_CTX_check_private_key \<noteq> 1 \<longrightarrow>
    fst (rd_kafka_ssl_set_certs msc L errno conf lib errstr sz) = - 1 \<and>
    fst (snd (rd_kafka_ssl_set_certs msc L errno conf lib errstr sz)) =
      rd_snprintf sz errstr ''Private key check failed: '') \<and>
   ((\<exists>st. set_certs_load msc L errno conf lib = Inr st) \<and>
    (SSL_CTX_check_private_key \<in>
       set (snd (snd (rd_kafka_ssl_set_certs msc L errno conf lib errstr sz))) \<longrightarrow>
     lib SSL_CTX_check_private_key = 1) \<longrightarrow>
    fst (rd_kafka_ssl_set_certs msc L errno conf lib errstr sz) = 0 \<and>
    fst (snd (rd_kafka_ssl_set_certs msc L errno conf lib errstr sz)) = errstr)"
proof (cases "set_certs_load msc L errno conf lib")
  case (Inl e)
  obtain msg calls where e: "e = (msg, calls)" by (cases e)
  have "SSL_CTX_check_private_key \<notin> set calls"
    using set_certs_load_inv [where msc = msc and L = L and errno = errno and conf = conf
        and lib = lib] Inl e by simp
  then show ?thesis
    by (simp add: rd_kafka_ssl_set_certs_def Inl e)
next
  case (Inr st)
  have inv: "certs_inv lib
      (ssl_key conf \<or> key_location conf \<noteq> None \<or> key_pem conf \<noteq> None \<or>
       keystore_location conf \<noteq> None) st"
    using set_certs_load_inv [where msc = msc and L = L and errno = errno and conf = conf
        and lib = lib] Inr by simp
  then have a: "SSL_CTX_check_private_key \<notin> set (lib_calls st)"
    and b: "check_pkey st = (ssl_key conf \<or> key_location conf \<noteq> None \<or>
        key_pem conf \<noteq> None \<or> keystore_location conf \<noteq> None)"
    and c: "key_installed lib (lib_calls st) = check_pkey st"
    by (simp_all add: certs_inv_def)
  show ?thesis
  proof (cases "check_pkey st")
    case True
    then show ?thesis
      using a b c
      by (simp add: rd_kafka_ssl_set_certs_def Inr key_installed_append key_installed_Cons
          key_installed_Nil)
  next
    case False
    then show ?thesis
      using a b c
      by (simp add: rd_kafka_ssl_set_certs_def Inr)
  qed
qed

theorem rd_kafka_ssl_set_certs_key_check_witness:
  "rd_kafka_ssl_set_certs False
     \<lparr>ERR_error_string = (\<lambda>_. []), rd_strerror = (\<lambda>_. []),
      X509_verify_cert_error_string = (\<lambda>_. [])\<rparr>
     0
     \<lparr>ssl_ca = False, ca_location = None, crl_location = None, ssl_cert = True,
      cert_location = None, cert_pem = None, ssl_key = True, key_location = None,
      key_pem = None, keystore_location = None, keystore_password = None\<rparr>
     (\<lambda>c. if c = SSL_CTX_check_private_key then 0 else 1) [] 512 =
   (- 1, ''Private key check failed: '',
    [SSL_CTX_set_default_verify_paths, SSL_CTX_use_certificate_mem,
     SSL_CTX_use_PrivateKey_mem, SSL_CTX_check_private_key]) \<and>
   rd_kafka_ssl_set_certs False
     \<lparr>ERR_error_string = (\<lambda>_. []), rd_strerror = (\<lambda>_. []),
      X509_verify_cert_error_string = (\<lambda>_. [])\<rparr>
     0
     \<lparr>ssl_ca = False, ca_location = None, crl_location = None, ssl_cert = True,
      cert_location = None, cert_pem = None, ssl_key = True, key_location = None,
      key_pem = None, keystore_location = None, keystore_password = None\<rparr>
     (\<lambda>c. 1) [] 512 =
   (0, [],
    [SSL_CTX_set_default_verify_paths, SSL_CTX_use_certificate_mem,
     SSL_CTX_use_PrivateKey_mem, SSL_CTX_check_private_key])"
proof -
  let ?L = "\<lparr>ERR_error_string = (\<lambda>_. []), rd_strerror = (\<lambda>_. []),
      X509_verify_cert_error_string = (\<lambda>_. [])\<rparr>"
  let ?conf = "\<lparr>ssl_ca = False, ca_location = None, crl_location = None, ssl_cert = True,
      cert_location = None, cert_pem = None, ssl_key = True, key_location = None,
      key_pem = None, keystore_location = None, keystore_password = None\<rparr>"
  let ?bad = "\<lambda>c. if c = SSL_CTX_check_private_key then 0 else (1 :: int)"
  let ?good = "\<lambda>c :: lib_call. 1 :: int"
  have ld: "set_certs_load False ?L 0 ?conf lib =
      Inr \<lparr>check_pkey = True,
           lib_calls = [SSL_CTX_set_default_verify_paths, SSL_CTX_use_certificate_mem,
                        SSL_CTX_use_PrivateKey_mem]\<rparr>"
    if "lib SSL_CTX_use_certificate_mem = 1" "lib SSL_CTX_use_PrivateKey_mem = 1" for lib
    using that
    by (simp add: set_certs_load_def and_then_def load_ca_def load_crl_def load_cert_def
        load_cert_location_def load_cert_pem_def load_key_def load_key_location_def
        load_key_pem_def load_keystore_def called_def failed_def)
  show ?thesis
    using rd_kafka_ssl_set_certs_key_check [where msc = False and L = ?L and errno = 0
        and conf = ?conf and lib = ?bad and errstr = "[]" and sz = 512]
      rd_kafka_ssl_set_certs_key_check [where msc = False and L = ?L and errno = 0
        and conf = ?conf and lib = ?good and errstr = "[]" and sz = 512]
    by (simp add: rd_kafka_ssl_set_certs_def ld rd_snprintf_def)
qed

end
